theory Spec2Isabelle
  imports Main
begin

section \<open>Go values shared by both source files\<close>

text \<open>
  A Go \<^verbatim>\<open>string\<close> is a sequence of bytes, as \<^typ>\<open>string\<close> is here.
  A Go \<^verbatim>\<open>error\<close> is modelled by the text its \<^verbatim>\<open>Error()\<close> method gives; the
  \<^verbatim>\<open>nil\<close> error is \<^term>\<open>None\<close>. A call that panics (an index out of range, a nil
  pointer dereference, closing a closed channel) does not return: that is \<open>Panic\<close>.
\<close>

datatype go_error = GoError string

datatype 'a outcome = Panic string | Return 'a

definition newline :: char where
  "newline = CHR 0x0A"

definition squote :: char where
  "squote = CHR 0x27"

definition dquote :: char where
  "dquote = CHR 0x22"


section \<open>src/env.go: the environment prologue\<close>

subsection \<open>Library functions that AddEnv calls\<close>

text \<open>
  \<^verbatim>\<open>strings.Index(s, "=")\<close>: the position of the first \<^verbatim>\<open>=\<close>, Go's \<^verbatim>\<open>-1\<close> being
  \<^term>\<open>None\<close>.
\<close>

fun Index :: "string \<Rightarrow> char \<Rightarrow> nat option" where
  "Index [] c = None"
| "Index (x # xs) c = (if x = c then Some 0 else map_option Suc (Index xs c))"

text \<open>
  \<^verbatim>\<open>strings.SplitN(kv, "=", 2)\<close>. The standard library cuts at the first separator and
  keeps the remainder whole: \<^verbatim>\<open>a[0] = s[:m]; s = s[m+len(sep):]; a[1] = s\<close>; without a
  separator the result is the one-element slice \<^verbatim>\<open>[s]\<close>.
\<close>

definition SplitN_2 :: "string \<Rightarrow> char \<Rightarrow> string list" where
  "SplitN_2 s sep =
     (case Index s sep of
        None \<Rightarrow> [s]
      | Some m \<Rightarrow> [take m s, drop (m + 1) s])"

text \<open>Indexing a slice, \<^verbatim>\<open>kvs[i]\<close>: Go panics when \<open>i\<close> is not below the length.\<close>

definition index :: "'a list \<Rightarrow> nat \<Rightarrow> 'a outcome" where
  "index xs i =
     (if i < length xs then Return (xs ! i) else Panic ''index out of range'')"

text \<open>
  \<^verbatim>\<open>shellescape.Quote\<close> belongs to the imported package
  \<^verbatim>\<open>github.com/alessio/shellescape\<close>, a dependency of the repository and not part of it.
  \<open>AddEnv\<close> below takes the function as its parameter \<open>quote\<close>, and what is proved of
  \<open>AddEnv\<close> in general holds for every \<open>quote\<close>. The examples are evaluated with
  \<open>Quote\<close>, which is the function as the package defines it:
  \<^verbatim>\<open>
  pattern = regexp.MustCompile(`[^\w@%+=:,./-]`)

  func Quote(s string) string {
      if len(s) == 0 {
          return "''"
      }
      if pattern.MatchString(s) {
          return "'" + strings.ReplaceAll(s, "'", "'\"'\"'") + "'"
      }
      return s
  }
  \<close>
  Go's \<^verbatim>\<open>\w\<close> is the ASCII class \<^verbatim>\<open>[0-9A-Za-z_]\<close>, here \<open>word_chars\<close>: the letters and
  the underscore (\<open>ident_start\<close>) and the digits. Every byte of a character outside
  ASCII (and every byte that is not valid UTF-8) is matched by the negated class, so
  the pattern matches exactly when some byte of \<open>s\<close> is outside \<open>safe_chars\<close>.
\<close>

definition ident_start :: string where
  "ident_start = ''abcdefghijklmnopqrstuvwxyzABCDEFGHIJKLMNOPQRSTUVWXYZ_''"

definition word_chars :: string where
  "word_chars = ident_start @ ''0123456789''"

definition safe_chars :: string where
  "safe_chars = word_chars @ ''@%+=:,./-''"

definition pattern_MatchString :: "string \<Rightarrow> bool" where
  "pattern_MatchString s = (\<exists>c \<in> set s. c \<notin> set safe_chars)"

text \<open>\<^verbatim>\<open>strings.ReplaceAll(s, "'", "'\"'\"'")\<close>: each single quote becomes five bytes.\<close>

fun ReplaceAll_squote :: "string \<Rightarrow> string" where
  "ReplaceAll_squote [] = []"
| "ReplaceAll_squote (c # cs) =
     (if c = squote then [squote, dquote, squote, dquote, squote] @ ReplaceAll_squote cs
      else c # ReplaceAll_squote cs)"

definition Quote :: "string \<Rightarrow> string" where
  "Quote s =
     (if length s = 0 then [squote, squote]
      else if pattern_MatchString s then [squote] @ ReplaceAll_squote s @ [squote]
      else s)"

subsection \<open>AddEnv\<close>

text \<open>
  The body of the \<^verbatim>\<open>for _, kv := range env\<close> loop, with \<open>envBlob\<close> as the
  accumulator. \<^term>\<open>Inl\<close> is the early \<^verbatim>\<open>return "", fmt.Errorf(...)\<close>; \<^term>\<open>Inr\<close> is the
  blob when the loop runs to its end. \<^verbatim>\<open>kvs[0]\<close> and \<^verbatim>\<open>kvs[1]\<close> are index
  expressions and panic out of range.
\<close>

fun AddEnv_loop ::
  "(string \<Rightarrow> string) \<Rightarrow> string \<Rightarrow> string list \<Rightarrow> (go_error + string) outcome" where
  "AddEnv_loop quote envBlob [] = Return (Inr envBlob)"
| "AddEnv_loop quote envBlob (kv # env) =
     (let kvs = SplitN_2 kv (CHR ''='') in
      case index kvs 0 of
        Panic m \<Rightarrow> Panic m
      | Return k \<Rightarrow>
          if k \<noteq> quote k then Return (Inl (GoError ''shell variable name not valid''))
          else
            (case index kvs 1 of
               Panic m \<Rightarrow> Panic m
             | Return v \<Rightarrow>
                 AddEnv_loop quote
                   (envBlob @ k @ ''='' @ quote v @ ''; export '' @ k @ [newline]) env))"

text \<open>
  \<^verbatim>\<open>fmt.Sprint(envBlob, script)\<close> puts a space between two operands only when neither
  is a string, so here it is plain concatenation.
\<close>

definition AddEnv ::
  "(string \<Rightarrow> string) \<Rightarrow> string \<Rightarrow> string list \<Rightarrow> (string \<times> go_error option) outcome" where
  "AddEnv quote script env =
     (case AddEnv_loop quote [] env of
        Panic m \<Rightarrow> Panic m
      | Return (Inl err) \<Rightarrow> Return ([], Some err)
      | Return (Inr envBlob) \<Rightarrow> Return (envBlob @ script, None))"

subsection \<open>The parts of a declaration, for stating what AddEnv returns\<close>

text \<open>
  The name of a declaration is what stands before its first \<^verbatim>\<open>=\<close> (the whole
  declaration when there is none), its value what stands after that \<^verbatim>\<open>=\<close>. They are
  written with \<^const>\<open>takeWhile\<close> and \<^const>\<open>dropWhile\<close>, independently of
  \<^const>\<open>SplitN_2\<close>. \<open>export_line\<close> is the line the specification describes:
  \<^verbatim>\<open>NAME=<escaped-value>; export NAME\<close> and a newline.
\<close>

definition name_of :: "string \<Rightarrow> string" where
  "name_of kv = takeWhile (\<lambda>c. c \<noteq> CHR ''='') kv"

definition value_of :: "string \<Rightarrow> string" where
  "value_of kv = tl (dropWhile (\<lambda>c. c \<noteq> CHR ''='') kv)"

definition export_line :: "(string \<Rightarrow> string) \<Rightarrow> string \<Rightarrow> string" where
  "export_line quote kv =
     name_of kv @ ''='' @ quote (value_of kv) @ ''; export '' @ name_of kv @ [newline]"

text \<open>
  The specification's shell identifiers, \<^verbatim>\<open>^[A-Za-z_][A-Za-z0-9_]*$\<close>. The code never
  tests this; it is here to say which names the specification calls safe.
\<close>

definition shell_identifier :: "string \<Rightarrow> bool" where
  "shell_identifier s =
     (case s of
        [] \<Rightarrow> False
      | c # cs \<Rightarrow>
          c \<in> set ident_start \<and> list_all (\<lambda>d. d \<in> set word_chars) cs)"


subsection \<open>The shell that reads the prologue\<close>













section \<open>src/unnamed/part_000: the SSH client\<close>

subsection \<open>State\<close>

text \<open>
  \<^verbatim>\<open>client *ssh.Client\<close> and \<^verbatim>\<open>session *ssh.Session\<close> are pointers: \<^term>\<open>None\<close> is
  \<^verbatim>\<open>nil\<close>. \<^verbatim>\<open>done chan struct{}\<close> is a channel nothing is ever sent on, so all that
  matters is whether it has been closed; closing a closed channel panics. The field is
  \<open>done_ch\<close> here, \<open>done\<close> being a keyword.
\<close>

datatype ssh_ClientConfig = ClientConfig string

datatype ssh_Client = Client

datatype ssh_Session = Session

datatype chan = Open | Closed

record SSHClient =
  hostPort :: string
  sshConfig :: ssh_ClientConfig
  client :: "ssh_Client option"
  session :: "ssh_Session option"
  done_ch :: chan

text \<open>\<^verbatim>\<open>ctx.Done() == nil\<close> holds for \<^verbatim>\<open>context.Background()\<close> and \<^verbatim>\<open>context.TODO()\<close>.\<close>

datatype go_context = Background | Cancellable

subsection \<open>The collaborators\<close>

text \<open>
  What the caller's goroutine does to the outside, in order: the calls into the
  dialer, the ssh package, the terminal package and the stdin pipe, and the statements
  that start or stop other goroutines. The goroutines themselves run concurrently and are
  not followed: the watcher of \<^verbatim>\<open>getClient\<close> (it closes the raw connection when the
  context is cancelled before \<open>done\<close> is closed) and the resize worker of \<^verbatim>\<open>Shell\<close>.
\<close>

datatype event =
    Dialer_DialContext go_context string
  | go_watcher go_context
  | ssh_NewClientConn string
  | Client_NewSession
  | Client_Close
  | Session_Wait
  | Session_StdinPipe
  | Session_Shell
  | Session_RequestPty string int int
  | Stdin_Write string
  | Stdin_Close
  | terminal_MakeRaw
  | terminal_Restore
  | terminal_GetSize
  | signal_Notify
  | go_resize_worker
  | close_sigChan
  | wg_Wait
  | close_done

text \<open>
  The collaborators are not in the repository. A call's error result (\<^term>\<open>None\<close> for
  \<^verbatim>\<open>nil\<close>) may depend on everything done before it, and nothing more is assumed:
  \<open>fails k t c\<close> is the error of call \<open>c\<close> made after the events \<open>t\<close>, and
  \<open>term_size k t\<close> the \<^verbatim>\<open>(w, h)\<close> that \<^verbatim>\<open>terminal.GetSize\<close> gives then.
\<close>

record collab =
  fails :: "event list \<Rightarrow> event \<Rightarrow> go_error option"
  term_size :: "event list \<Rightarrow> int \<times> int"

definition perform :: "collab \<Rightarrow> event \<Rightarrow> event list \<Rightarrow> go_error option \<times> event list" where
  "perform k c t = (fails k t c, t @ [c])"

fun Error :: "go_error \<Rightarrow> string" where
  "Error (GoError m) = m"

definition close_chan :: "chan \<Rightarrow> chan outcome" where
  "close_chan c = (case c of Open \<Rightarrow> Return Closed | Closed \<Rightarrow> Panic ''close of closed channel'')"

subsection \<open>Construction and connecting\<close>

definition NewSSHClient :: "string \<Rightarrow> ssh_ClientConfig \<Rightarrow> SSHClient" where
  "NewSSHClient hp sshconfig =
     \<lparr>hostPort = hp, sshConfig = sshconfig, client = None, session = None, done_ch = Open\<rparr>"

definition getClient ::
  "collab \<Rightarrow> go_context \<Rightarrow> SSHClient \<Rightarrow> event list \<Rightarrow> go_error option \<times> SSHClient \<times> event list" where
  "getClient k ctx s t =
     (case client s of
        Some c \<Rightarrow> (None, s, t)
      | None \<Rightarrow>
          (case perform k (Dialer_DialContext ctx (hostPort s)) t of
             (Some err, t1) \<Rightarrow> (Some err, s, t1)
           | (None, t1) \<Rightarrow>
               (case perform k (ssh_NewClientConn (hostPort s)) (t1 @ [go_watcher ctx]) of
                  (Some err, t2) \<Rightarrow> (Some err, s, t2)
                | (None, t2) \<Rightarrow> (None, s\<lparr>client := Some Client\<rparr>, t2))))"

text \<open>\<^verbatim>\<open>s.client.NewSession()\<close> dereferences \<^verbatim>\<open>s.client\<close>: on \<^verbatim>\<open>nil\<close> it panics.\<close>

definition getSession ::
  "collab \<Rightarrow> SSHClient \<Rightarrow> event list \<Rightarrow> (go_error option \<times> SSHClient \<times> event list) outcome" where
  "getSession k s t =
     (case session s of
        Some x \<Rightarrow> Return (None, s, t)
      | None \<Rightarrow>
          (case client s of
             None \<Rightarrow> Panic ''nil pointer dereference''
           | Some c \<Rightarrow>
               (case perform k Client_NewSession t of
                  (Some err, t1) \<Rightarrow> Return (Some err, s, t1)
                | (None, t1) \<Rightarrow> Return (None, s\<lparr>session := Some Session\<rparr>, t1))))"

definition mustBeConnected :: "SSHClient \<Rightarrow> go_error option" where
  "mustBeConnected s =
     (if session s = None \<or> client s = None
      then Some (GoError ''sshclient not connected, did you call Dial()?'')
      else None)"

subsection \<open>Close\<close>

text \<open>
  The second \<^verbatim>\<open>if\<close> of \<^verbatim>\<open>Close\<close>, then its first one. Each handle is set to \<^verbatim>\<open>nil\<close>
  only after its own teardown call returned no error; an error returns at once.
\<close>

definition Close_client ::
  "collab \<Rightarrow> SSHClient \<Rightarrow> event list \<Rightarrow> go_error option \<times> SSHClient \<times> event list" where
  "Close_client k s t =
     (case client s of
        Some c \<Rightarrow>
          (case perform k Client_Close t of
             (Some err, t1) \<Rightarrow> (Some err, s, t1)
           | (None, t1) \<Rightarrow> (None, s\<lparr>client := None\<rparr>, t1))
      | None \<Rightarrow> (None, s, t))"

definition Close_body ::
  "collab \<Rightarrow> SSHClient \<Rightarrow> event list \<Rightarrow> go_error option \<times> SSHClient \<times> event list" where
  "Close_body k s t =
     (case session s of
        Some x \<Rightarrow>
          (case perform k Session_Wait t of
             (Some err, t1) \<Rightarrow> (Some err, s, t1)
           | (None, t1) \<Rightarrow> Close_client k (s\<lparr>session := None\<rparr>) t1)
      | None \<Rightarrow> Close_client k s t)"

text \<open>
  The deferred function of \<^verbatim>\<open>Close\<close>: \<^verbatim>\<open>select { case <-s.done: default: close(s.done) }\<close>.
  The receive is ready exactly when the channel is closed.
\<close>

definition Close_deferred :: "SSHClient \<Rightarrow> event list \<Rightarrow> (SSHClient \<times> event list) outcome" where
  "Close_deferred s t =
     (case done_ch s of
        Closed \<Rightarrow> Return (s, t)
      | Open \<Rightarrow>
          (case close_chan (done_ch s) of
             Panic m \<Rightarrow> Panic m
           | Return d \<Rightarrow> Return (s\<lparr>done_ch := d\<rparr>, t @ [close_done])))"

definition Close ::
  "collab \<Rightarrow> SSHClient \<Rightarrow> event list \<Rightarrow> (go_error option \<times> SSHClient \<times> event list) outcome" where
  "Close k s t =
     (case Close_body k s t of
        (err, s1, t1) \<Rightarrow>
          (case Close_deferred s1 t1 of
             Panic m \<Rightarrow> Panic m
           | Return (s2, t2) \<Rightarrow> Return (err, s2, t2)))"

subsection \<open>dial, Dial, DialContext\<close>

definition dial ::
  "collab \<Rightarrow> go_context \<Rightarrow> SSHClient \<Rightarrow> event list \<Rightarrow> (go_error option \<times> SSHClient \<times> event list) outcome" where
  "dial k ctx s t =
     (case getClient k ctx s t of
        (Some err, s1, t1) \<Rightarrow> Return (Some err, s1, t1)
      | (None, s1, t1) \<Rightarrow>
          (case getSession k s1 t1 of
             Panic m \<Rightarrow> Panic m
           | Return (None, s2, t2) \<Rightarrow> Return (None, s2, t2)
           | Return (Some err, s2, t2) \<Rightarrow>
               (case Close k s2 t2 of
                  Panic m \<Rightarrow> Panic m
                | Return (Some cerr, s3, t3) \<Rightarrow>
                    Return (Some (GoError (''session error: '' @ Error err @
                                           '', cleanup error: '' @ Error cerr)), s3, t3)
                | Return (None, s3, t3) \<Rightarrow>
                    Return (Some (GoError (''session error: '' @ Error err)), s3, t3))))"

definition Dial ::
  "collab \<Rightarrow> SSHClient \<Rightarrow> event list \<Rightarrow> (go_error option \<times> SSHClient \<times> event list) outcome" where
  "Dial k s t = dial k Background s t"

definition DialContext ::
  "collab \<Rightarrow> go_context \<Rightarrow> SSHClient \<Rightarrow> event list \<Rightarrow> (go_error option \<times> SSHClient \<times> event list) outcome" where
  "DialContext k ctx s t = dial k ctx s t"

subsection \<open>ExecScript and Shell\<close>

text \<open>
  \<^verbatim>\<open>defer s.Close()\<close>: when the function returns, \<^verbatim>\<open>Close\<close> runs and what it returns
  is dropped; the function's own result was fixed before.
\<close>

definition defer_Close ::
  "collab \<Rightarrow> go_error option \<times> SSHClient \<times> event list \<Rightarrow>
   (go_error option \<times> SSHClient \<times> event list) outcome" where
  "defer_Close k r =
     (case r of
        (err, s, t) \<Rightarrow>
          (case Close k s t of
             Panic m \<Rightarrow> Panic m
           | Return (cerr, s1, t1) \<Rightarrow> Return (err, s1, t1)))"

definition stdinPipe :: "collab \<Rightarrow> SSHClient \<Rightarrow> event list \<Rightarrow> go_error option \<times> event list" where
  "stdinPipe k s t =
     (case mustBeConnected s of
        Some err \<Rightarrow> (Some err, t)
      | None \<Rightarrow> perform k Session_StdinPipe t)"

text \<open>
  The body of \<^verbatim>\<open>ExecScript\<close> after \<^verbatim>\<open>defer s.Close()\<close>. \<^verbatim>\<open>fmt.Fprintln(inp, script)\<close>
  formats \<open>script\<close> and a newline into one buffer and hands it to the pipe in one
  \<^verbatim>\<open>Write\<close>. What \<^verbatim>\<open>inp.Close()\<close> returns is not looked at.
\<close>

definition ExecScript_body ::
  "collab \<Rightarrow> string \<Rightarrow> SSHClient \<Rightarrow> event list \<Rightarrow> go_error option \<times> SSHClient \<times> event list" where
  "ExecScript_body k script s t =
     (case stdinPipe k s t of
        (Some err, t1) \<Rightarrow> (Some err, s, t1)
      | (None, t1) \<Rightarrow>
          (case perform k Session_Shell t1 of
             (Some err, t2) \<Rightarrow> (Some err, s, t2)
           | (None, t2) \<Rightarrow>
               (case perform k (Stdin_Write (script @ [newline])) t2 of
                  (Some err, t3) \<Rightarrow> (Some err, s, t3)
                | (None, t3) \<Rightarrow>
                    (case perform k Stdin_Close t3 of
                       (ignored, t4) \<Rightarrow>
                         (case perform k Session_Wait t4 of
                            (err, t5) \<Rightarrow> (err, s\<lparr>session := None\<rparr>, t5))))))"

definition ExecScript ::
  "collab \<Rightarrow> string \<Rightarrow> SSHClient \<Rightarrow> event list \<Rightarrow> (go_error option \<times> SSHClient \<times> event list) outcome" where
  "ExecScript k script s t =
     (case mustBeConnected s of
        Some err \<Rightarrow> Return (Some err, s, t)
      | None \<Rightarrow> defer_Close k (ExecScript_body k script s t))"

text \<open>
  The body of \<^verbatim>\<open>Shell\<close> after \<^verbatim>\<open>defer terminal.Restore(fd, state)\<close>. Assigning
  \<^verbatim>\<open>os.Stdin\<close>, \<^verbatim>\<open>os.Stdout\<close> and \<^verbatim>\<open>os.Stderr\<close> to the session's fields calls nothing.
\<close>

definition Shell_body ::
  "collab \<Rightarrow> SSHClient \<Rightarrow> event list \<Rightarrow> go_error option \<times> SSHClient \<times> event list" where
  "Shell_body k s t =
     (case perform k terminal_GetSize t of
        (Some err, t1) \<Rightarrow> (Some err, s, t1)
      | (None, t1) \<Rightarrow>
          (case term_size k t of
             (w, h) \<Rightarrow>
               (case perform k (Session_RequestPty ''xterm'' h w) t1 of
                  (Some err, t2) \<Rightarrow> (Some err, s, t2)
                | (None, t2) \<Rightarrow>
                    (case perform k Session_Shell t2 of
                       (Some err, t3) \<Rightarrow> (Some err, s, t3)
                     | (None, t3) \<Rightarrow>
                         (case perform k Session_Wait (t3 @ [signal_Notify, go_resize_worker]) of
                            (err, t4) \<Rightarrow>
                              (err, s\<lparr>session := None\<rparr>, t4 @ [close_sigChan, wg_Wait]))))))"

text \<open>
  The deferred calls run last in, first out: \<^verbatim>\<open>terminal.Restore\<close> (its result dropped),
  then \<^verbatim>\<open>s.Close()\<close>.
\<close>

definition Shell ::
  "collab \<Rightarrow> SSHClient \<Rightarrow> event list \<Rightarrow> (go_error option \<times> SSHClient \<times> event list) outcome" where
  "Shell k s t =
     (case mustBeConnected s of
        Some err \<Rightarrow> Return (Some err, s, t)
      | None \<Rightarrow>
          (case perform k terminal_MakeRaw t of
             (Some err, t1) \<Rightarrow> defer_Close k (Some err, s, t1)
           | (None, t1) \<Rightarrow>
               (case Shell_body k s t1 of
                  (err, s2, t2) \<Rightarrow>
                    (case perform k terminal_Restore t2 of
                       (ignored, t3) \<Rightarrow> defer_Close k (err, s2, t3)))))"

subsection \<open>Callers and collaborators for the examples\<close>

text \<open>
  A caller that calls \<^verbatim>\<open>Close\<close> \<open>n\<close> times in a row, whatever each call returns.
\<close>

fun Close_times :: "collab \<Rightarrow> nat \<Rightarrow> SSHClient \<Rightarrow> event list \<Rightarrow> (SSHClient \<times> event list) outcome" where
  "Close_times k 0 s t = Return (s, t)"
| "Close_times k (Suc n) s t =
     (case Close k s t of
        Panic m \<Rightarrow> Panic m
      | Return (err, s1, t1) \<Rightarrow> Close_times k n s1 t1)"

text \<open>
  \<open>failing fs\<close> are collaborators under which each call listed in \<open>fs\<close> fails, every
  time, with the text given for it, and every other call succeeds; the terminal is 80
  columns by 24 rows. \<open>connected\<close> is the client after a successful \<^verbatim>\<open>Dial()\<close> to
  \<^verbatim>\<open>h:22\<close>, and \<open>dialled\<close> what that \<^verbatim>\<open>Dial()\<close> did.
\<close>

definition failing :: "(event \<times> string) list \<Rightarrow> collab" where
  "failing fs =
     \<lparr>fails = (\<lambda>t c. map_option GoError (map_of fs c)), term_size = (\<lambda>t. (80, 24))\<rparr>"

definition cfg0 :: ssh_ClientConfig where
  "cfg0 = ClientConfig ''root''"

definition connected :: SSHClient where
  "connected =
     \<lparr>hostPort = ''h:22'', sshConfig = cfg0, client = Some Client, session = Some Session,
      done_ch = Open\<rparr>"

definition dialled :: "event list" where
  "dialled =
     [Dialer_DialContext Background ''h:22'', go_watcher Background, ssh_NewClientConn ''h:22'',
      Client_NewSession]"


section \<open>AddEnv: what it returns\<close>

lemmas env_defs =
  AddEnv_def SplitN_2_def index_def Quote_def pattern_MatchString_def safe_chars_def
  word_chars_def ident_start_def squote_def dquote_def newline_def name_of_def value_of_def export_line_def

lemma Index_none: "c \<notin> set s \<Longrightarrow> Index s c = None"
  by (induction s) auto

lemma Index_first: "c \<notin> set n \<Longrightarrow> Index (n @ c # v) c = Some (length n)"
  by (induction n) auto

lemma decl_parts:
  assumes "CHR ''='' \<in> set kv"
  shows "kv = name_of kv @ CHR ''='' # value_of kv"
proof -
  let ?P = "\<lambda>c. c \<noteq> CHR ''=''"
  have ne: "dropWhile ?P kv \<noteq> []" using assms by simp
  then have hd: "hd (dropWhile ?P kv) = CHR ''=''"
    using hd_dropWhile [of ?P kv] by simp
  have "kv = takeWhile ?P kv @ dropWhile ?P kv" by simp
  also have "dropWhile ?P kv = CHR ''='' # tl (dropWhile ?P kv)"
    using ne hd by (cases "dropWhile ?P kv") auto
  finally show ?thesis by (simp add: name_of_def value_of_def)
qed

lemma name_of_no_eq: "CHR ''='' \<notin> set (name_of kv)"
  unfolding name_of_def by (induction kv) auto

lemma name_of_whole: "CHR ''='' \<notin> set kv \<Longrightarrow> name_of kv = kv"
  unfolding name_of_def by (induction kv) auto

text \<open>The split is at the first \<^verbatim>\<open>=\<close> only: the value keeps every later one.\<close>

lemma SplitN_2_decl:
  assumes "CHR ''='' \<in> set kv"
  shows "SplitN_2 kv (CHR ''='') = [name_of kv, value_of kv]"
proof -
  have "Index (name_of kv @ CHR ''='' # value_of kv) (CHR ''='') = Some (length (name_of kv))"
    by (rule Index_first) (rule name_of_no_eq)
  then have i: "Index kv (CHR ''='') = Some (length (name_of kv))"
    using decl_parts [OF assms] by simp
  have "take (length (name_of kv)) (name_of kv @ CHR ''='' # value_of kv) = name_of kv"
    by simp
  moreover have
    "drop (length (name_of kv) + 1) (name_of kv @ CHR ''='' # value_of kv) = value_of kv"
    by simp
  ultimately show ?thesis
    using decl_parts [OF assms] i by (simp add: SplitN_2_def)
qed

lemma SplitN_2_nosep: "CHR ''='' \<notin> set kv \<Longrightarrow> SplitN_2 kv (CHR ''='') = [kv]"
  by (simp add: SplitN_2_def Index_none)

lemma index_head: "index (SplitN_2 kv (CHR ''='')) 0 = Return (name_of kv)"
  by (cases "CHR ''='' \<in> set kv")
     (simp_all add: SplitN_2_decl SplitN_2_nosep name_of_whole index_def)


lemma AddEnv_loop_bad_name:
  "quote (name_of kv) \<noteq> name_of kv \<Longrightarrow>
   AddEnv_loop quote blob (kv # env) = Return (Inl (GoError ''shell variable name not valid''))"
  by (simp add: index_head Let_def)

lemma AddEnv_loop_good:
  "quote (name_of kv) = name_of kv \<Longrightarrow> CHR ''='' \<in> set kv \<Longrightarrow>
   AddEnv_loop quote blob (kv # env) = AddEnv_loop quote (blob @ export_line quote kv) env"
  by (simp add: index_head Let_def SplitN_2_decl index_def export_line_def)

lemma AddEnv_loop_all_good:
  "list_all (\<lambda>kv. CHR ''='' \<in> set kv \<and> quote (name_of kv) = name_of kv) env \<Longrightarrow>
   AddEnv_loop quote blob env = Return (Inr (blob @ concat (map (export_line quote) env)))"
proof (induction env arbitrary: blob)
  case Nil
  then show ?case by simp
next
  case (Cons kv env)
  then show ?case using AddEnv_loop_good [of quote kv blob env] by simp
qed

lemma AddEnv_loop_some_bad:
  "\<exists>kv \<in> set env. quote (name_of kv) \<noteq> name_of kv \<Longrightarrow>
   \<forall>kv \<in> set env. quote (name_of kv) = name_of kv \<longrightarrow> CHR ''='' \<in> set kv \<Longrightarrow>
   AddEnv_loop quote blob env = Return (Inl (GoError ''shell variable name not valid''))"
proof (induction env arbitrary: blob)
  case Nil
  then show ?case by simp
next
  case (Cons kv env)
  show ?case
  proof (cases "quote (name_of kv) = name_of kv")
    case True
    then have "CHR ''='' \<in> set kv" using Cons.prems(2) by simp
    moreover have "\<exists>kv \<in> set env. quote (name_of kv) \<noteq> name_of kv"
      using Cons.prems(1) True by auto
    ultimately show ?thesis
      using Cons.IH Cons.prems(2) True AddEnv_loop_good [of quote kv blob env] by simp
  next
    case False
    then show ?thesis by (rule AddEnv_loop_bad_name)
  qed
qed

text \<open>
  Claim C1, as the code has it. The check of a name is \<^verbatim>\<open>kvs[0] != shellescape.Quote(kvs[0])\<close>:
  a name is refused exactly when quoting changes it; with the package's \<open>Quote\<close> that is
  when the name is empty or has a byte outside \<^verbatim>\<open>[A-Za-z0-9_@%+=:,./-]\<close>. If some
  declaration has such a name, and every declaration whose name passes the check has a
  \<^verbatim>\<open>=\<close>, then AddEnv returns the empty string and the error
  \<^verbatim>\<open>shell variable name not valid\<close>: no part of the prologue comes out.
\<close>

theorem AddEnv_bad_name:
  assumes "\<exists>kv \<in> set env. quote (name_of kv) \<noteq> name_of kv"
    and "\<forall>kv \<in> set env. quote (name_of kv) = name_of kv \<longrightarrow> CHR ''='' \<in> set kv"
  shows "AddEnv quote script env = Return ([], Some (GoError ''shell variable name not valid''))"
  using AddEnv_loop_some_bad [OF assms] by (simp add: AddEnv_def)

text \<open>The declaration \<^verbatim>\<open>BAD NAME=x\<close> is refused, also after a good one.\<close>

theorem AddEnv_bad_name_witness:
  "AddEnv Quote ''echo hi'' [''GOOD=1'', ''BAD NAME=x''] =
     Return ([], Some (GoError ''shell variable name not valid''))"
  using AddEnv_bad_name [of "[''GOOD=1'', ''BAD NAME=x'']" Quote "''echo hi''"]
  by (simp add: env_defs)

text \<open>
  The name \<^verbatim>\<open>1BAD\<close> is no shell identifier, and quoting leaves it as it is: AddEnv
  accepts \<^verbatim>\<open>1BAD=x\<close> and returns a prologue for it, with no error.
\<close>

theorem AddEnv_digit_name_counterexample:
  "\<not> shell_identifier ''1BAD'' \<and>
   AddEnv Quote ''echo hi'' [''1BAD=x''] =
     Return (''1BAD=x; export 1BAD'' @ [newline] @ ''echo hi'', None)"
  by (simp add: env_defs shell_identifier_def)

text \<open>
  Claim C2. When every declaration has a \<^verbatim>\<open>=\<close> and every name passes the check, AddEnv
  returns no error and the lines \<^verbatim>\<open>NAME=<escaped-value>; export NAME\<close>, one for each
  declaration and in their order, with the script unchanged after them.
\<close>

theorem AddEnv_prologue:
  assumes "\<forall>kv \<in> set env. CHR ''='' \<in> set kv \<and> quote (name_of kv) = name_of kv"
  shows "AddEnv quote script env = Return (concat (map (export_line quote) env) @ script, None)"
  using assms AddEnv_loop_all_good [of quote env "[]"] by (simp add: AddEnv_def list_all_iff)

text \<open>
  The two scenarios of the specification: the empty list gives the script back, and
  \<^verbatim>\<open>FOO=bar baz\<close> gives the line \<^verbatim>\<open>FOO='bar baz'; export FOO\<close> before the script.
\<close>

theorem AddEnv_prologue_witness:
  "AddEnv Quote ''echo hi'' [] = Return (''echo hi'', None) \<and>
   AddEnv Quote ''echo $FOO'' [''FOO=bar baz''] =
     Return (''FOO='' @ [squote] @ ''bar baz'' @ [squote] @ ''; export FOO'' @ [newline] @
             ''echo $FOO'', None)"
  using AddEnv_prologue [of "[]" Quote "''echo hi''"]
    AddEnv_prologue [of "[''FOO=bar baz'']" Quote "''echo $FOO''"]
  by (simp add: env_defs)

subsection \<open>The prologue read by a shell\<close>






















subsection \<open>A declaration without a value\<close>

text \<open>
  Claim C10, at the declaration \<^verbatim>\<open>FOO\<close>. It has no \<^verbatim>\<open>=\<close>, so \<^verbatim>\<open>kvs\<close> has one element;
  the name passes the check, and reading \<^verbatim>\<open>kvs[1]\<close> panics: AddEnv returns nothing.
\<close>

theorem AddEnv_no_equals_panics:
  "AddEnv Quote ''echo hi'' [''FOO''] = Panic ''index out of range''"
  by (simp add: env_defs)


section \<open>The SSH client: connecting, closing, executing\<close>

lemmas model_defs =
  perform_def close_chan_def NewSSHClient_def getClient_def getSession_def mustBeConnected_def
  Close_client_def Close_body_def Close_deferred_def Close_def dial_def Dial_def DialContext_def
  defer_Close_def stdinPipe_def ExecScript_body_def ExecScript_def Shell_body_def Shell_def

lemmas ex_defs = cfg0_def failing_def connected_def dialled_def newline_def

subsection \<open>Close\<close>

text \<open>
  The deferred function never closes a closed channel: it closes \<open>done\<close> when it
  is open and does nothing otherwise.
\<close>

lemma Close_deferred_total:
  "Close_deferred s t =
     Return (s\<lparr>done_ch := Closed\<rparr>, t @ (if done_ch s = Open then [close_done] else []))"
  by (cases "done_ch s") (simp_all add: Close_deferred_def close_chan_def)

lemma Close_eq:
  "Close k s t =
     (case Close_body k s t of
        (err, s1, t1) \<Rightarrow>
          Return (err, s1\<lparr>done_ch := Closed\<rparr>,
                  t1 @ (if done_ch s1 = Open then [close_done] else [])))"
  by (simp add: Close_def Close_deferred_total split: prod.splits)

lemma Close_body_done: "Close_body k s t = (err, s1, t1) \<Longrightarrow> done_ch s1 = done_ch s"
  by (auto simp: Close_body_def Close_client_def perform_def split: option.splits)

lemma Close_body_count:
  "Close_body k s t = (err, s1, t1) \<Longrightarrow> count_list t1 close_done = count_list t close_done"
  by (auto simp: Close_body_def Close_client_def perform_def split: option.splits)

lemma Close_body_nil:
  "Close_body k s t = (None, s1, t1) \<Longrightarrow> session s1 = None \<and> client s1 = None"
  by (auto simp: Close_body_def Close_client_def perform_def split: option.splits)

lemma Close_body_noop:
  "session s = None \<Longrightarrow> client s = None \<Longrightarrow> Close_body k s t = (None, s, t)"
  by (simp add: Close_body_def Close_client_def)

lemma Close_once:
  "\<exists>err s1 t1. Close k s t = Return (err, s1, t1) \<and> done_ch s1 = Closed \<and>
     count_list t1 close_done = count_list t close_done + (if done_ch s = Open then 1 else 0)"
proof -
  obtain err s1 t1 where b: "Close_body k s t = (err, s1, t1)"
    by (cases "Close_body k s t") auto
  show ?thesis
    using b Close_body_done [OF b] Close_body_count [OF b] by (simp add: Close_eq)
qed

lemma Close_times_once:
  "0 < n \<Longrightarrow>
   \<exists>s' t'. Close_times k n s t = Return (s', t') \<and> done_ch s' = Closed \<and>
     count_list t' close_done = count_list t close_done + (if done_ch s = Open then 1 else 0)"
proof (induction n arbitrary: s t)
  case 0
  then show ?case by simp
next
  case (Suc n)
  obtain err s1 t1 where c: "Close k s t = Return (err, s1, t1)" and d: "done_ch s1 = Closed"
    and cnt: "count_list t1 close_done =
                count_list t close_done + (if done_ch s = Open then 1 else 0)"
    using Close_once [of k s t] by blast
  show ?case
  proof (cases n)
    case 0
    then show ?thesis using c d cnt by simp
  next
    case (Suc m)
    then have "0 < n" by simp
    from Suc.IH [OF this, of s1 t1] obtain s' t' where
      "Close_times k n s1 t1 = Return (s', t')" "done_ch s' = Closed"
      "count_list t' close_done = count_list t1 close_done + (if done_ch s1 = Open then 1 else 0)"
      by blast
    then show ?thesis using c d cnt by simp
  qed
qed

lemma Close_noop_after_success:
  assumes "Close k s t = Return (None, s1, t1)"
  shows "Close k s1 t1 = Return (None, s1, t1)"
proof -
  obtain err s0 t0 where b: "Close_body k s t = (err, s0, t0)"
    by (cases "Close_body k s t") auto
  with assms have e: "err = None" and s1: "s1 = s0\<lparr>done_ch := Closed\<rparr>"
    by (simp_all add: Close_eq)
  from b e have "session s0 = None \<and> client s0 = None" using Close_body_nil by blast
  then have "Close_body k s1 t1 = (None, s1, t1)" using s1 by (simp add: Close_body_noop)
  then show ?thesis using s1 by (simp add: Close_eq)
qed

lemma client_None_upd:
  "client s = None \<Longrightarrow> s\<lparr>client := None, done_ch := d\<rparr> = s\<lparr>done_ch := d\<rparr>"
  by (cases s) simp

subsection \<open>Connecting\<close>

text \<open>
  Claim C4, as the code has it, for a client with neither handle. When the transport
  dial or the handshake fails, \<^verbatim>\<open>dial\<close> returns that error and the client is as it was.
  When opening the session fails, \<^verbatim>\<open>dial\<close> calls \<^verbatim>\<open>Close\<close>, which closes the
  connection before \<^verbatim>\<open>dial\<close> returns. If that close succeeds, both handles are absent
  again and the error is \<^verbatim>\<open>session error: <e>\<close>. If it fails, the error is
  \<^verbatim>\<open>session error: <e>, cleanup error: <ce>\<close>, with the text of both errors, and the
  connection handle stays in the client: \<^verbatim>\<open>Close\<close> clears a handle only after its
  teardown call has succeeded.
\<close>

theorem dial_failure:
  assumes "client s = None" and "session s = None"
  shows
    "(fails k t (Dialer_DialContext ctx (hostPort s)) = Some e \<longrightarrow>
        dial k ctx s t = Return (Some e, s, t @ [Dialer_DialContext ctx (hostPort s)])) \<and>
     (fails k t (Dialer_DialContext ctx (hostPort s)) = None \<and>
      fails k (t @ [Dialer_DialContext ctx (hostPort s), go_watcher ctx])
        (ssh_NewClientConn (hostPort s)) = Some e \<longrightarrow>
        dial k ctx s t =
          Return (Some e, s, t @ [Dialer_DialContext ctx (hostPort s), go_watcher ctx,
                                  ssh_NewClientConn (hostPort s)])) \<and>
     (fails k t (Dialer_DialContext ctx (hostPort s)) = None \<and>
      fails k (t @ [Dialer_DialContext ctx (hostPort s), go_watcher ctx])
        (ssh_NewClientConn (hostPort s)) = None \<and>
      fails k (t @ [Dialer_DialContext ctx (hostPort s), go_watcher ctx,
                    ssh_NewClientConn (hostPort s)]) Client_NewSession = Some e \<and>
      fails k (t @ [Dialer_DialContext ctx (hostPort s), go_watcher ctx,
                    ssh_NewClientConn (hostPort s), Client_NewSession]) Client_Close = None \<longrightarrow>
        dial k ctx s t =
          Return (Some (GoError (''session error: '' @ Error e)),
                  s\<lparr>done_ch := Closed\<rparr>,
                  t @ [Dialer_DialContext ctx (hostPort s), go_watcher ctx,
                       ssh_NewClientConn (hostPort s), Client_NewSession, Client_Close] @
                    (if done_ch s = Open then [close_done] else []))) \<and>
     (fails k t (Dialer_DialContext ctx (hostPort s)) = None \<and>
      fails k (t @ [Dialer_DialContext ctx (hostPort s), go_watcher ctx])
        (ssh_NewClientConn (hostPort s)) = None \<and>
      fails k (t @ [Dialer_DialContext ctx (hostPort s), go_watcher ctx,
                    ssh_NewClientConn (hostPort s)]) Client_NewSession = Some e \<and>
      fails k (t @ [Dialer_DialContext ctx (hostPort s), go_watcher ctx,
                    ssh_NewClientConn (hostPort s), Client_NewSession]) Client_Close = Some ce \<longrightarrow>
        dial k ctx s t =
          Return (Some (GoError (''session error: '' @ Error e @ '', cleanup error: '' @ Error ce)),
                  s\<lparr>client := Some Client, done_ch := Closed\<rparr>,
                  t @ [Dialer_DialContext ctx (hostPort s), go_watcher ctx,
                       ssh_NewClientConn (hostPort s), Client_NewSession, Client_Close] @
                    (if done_ch s = Open then [close_done] else [])))"
  using assms
  by (auto simp: dial_def getClient_def getSession_def perform_def Close_eq Close_body_def
        Close_client_def client_None_upd)

text \<open>
  The four failures on a new client: connection refused, handshake failed, session
  refused with a clean close, session refused and the close failing too.
\<close>

theorem dial_failure_witness:
  "Dial (failing [(Dialer_DialContext Background ''h:22'', ''connection refused'')])
       (NewSSHClient ''h:22'' cfg0) [] =
     Return (Some (GoError ''connection refused''), NewSSHClient ''h:22'' cfg0,
             [Dialer_DialContext Background ''h:22'']) \<and>
   Dial (failing [(ssh_NewClientConn ''h:22'', ''ssh: handshake failed'')])
       (NewSSHClient ''h:22'' cfg0) [] =
     Return (Some (GoError ''ssh: handshake failed''), NewSSHClient ''h:22'' cfg0,
             [Dialer_DialContext Background ''h:22'', go_watcher Background,
              ssh_NewClientConn ''h:22'']) \<and>
   Dial (failing [(Client_NewSession, ''open failed'')]) (NewSSHClient ''h:22'' cfg0) [] =
     Return (Some (GoError ''session error: open failed''),
             (NewSSHClient ''h:22'' cfg0)\<lparr>done_ch := Closed\<rparr>,
             [Dialer_DialContext Background ''h:22'', go_watcher Background,
              ssh_NewClientConn ''h:22'', Client_NewSession, Client_Close, close_done]) \<and>
   Dial (failing [(Client_NewSession, ''open failed''), (Client_Close, ''close failed'')])
       (NewSSHClient ''h:22'' cfg0) [] =
     Return (Some (GoError ''session error: open failed, cleanup error: close failed''),
             (NewSSHClient ''h:22'' cfg0)\<lparr>client := Some Client, done_ch := Closed\<rparr>,
             [Dialer_DialContext Background ''h:22'', go_watcher Background,
              ssh_NewClientConn ''h:22'', Client_NewSession, Client_Close, close_done])"
  using
    dial_failure [of "NewSSHClient ''h:22'' cfg0"
      "failing [(Dialer_DialContext Background ''h:22'', ''connection refused'')]" "[]" Background
      "GoError ''connection refused''" "GoError []"]
    dial_failure [of "NewSSHClient ''h:22'' cfg0"
      "failing [(ssh_NewClientConn ''h:22'', ''ssh: handshake failed'')]" "[]" Background
      "GoError ''ssh: handshake failed''" "GoError []"]
    dial_failure [of "NewSSHClient ''h:22'' cfg0"
      "failing [(Client_NewSession, ''open failed'')]" "[]" Background
      "GoError ''open failed''" "GoError []"]
    dial_failure [of "NewSSHClient ''h:22'' cfg0"
      "failing [(Client_NewSession, ''open failed''), (Client_Close, ''close failed'')]" "[]"
      Background "GoError ''open failed''" "GoError ''close failed''"]
  by (simp add: Dial_def NewSSHClient_def failing_def)

text \<open>
  The session cannot be opened and closing the connection fails as well: \<^verbatim>\<open>Dial()\<close>
  returns both errors in one, and leaves a client that holds a connection handle and
  no session.
\<close>

theorem dial_cleanup_failure_counterexample:
  "Dial (failing [(Client_NewSession, ''open failed''), (Client_Close, ''close failed'')])
     (NewSSHClient ''h:22'' cfg0) [] =
   Return (Some (GoError ''session error: open failed, cleanup error: close failed''),
           \<lparr>hostPort = ''h:22'', sshConfig = cfg0, client = Some Client, session = None,
            done_ch = Closed\<rparr>,
           [Dialer_DialContext Background ''h:22'', go_watcher Background,
            ssh_NewClientConn ''h:22'', Client_NewSession, Client_Close, close_done])"
  by (simp add: model_defs ex_defs)

subsection \<open>Closing twice\<close>

text \<open>
  Claim C5, as the code has it. A call of \<^verbatim>\<open>Close\<close> that follows a call which returned
  no error does nothing and returns no error. And however often \<^verbatim>\<open>Close\<close> is called,
  and whatever the calls return, no call panics and \<open>done\<close> is closed once: after the
  calls it is closed, and it was closed by them once if it was open before and not at
  all if it was closed already.
\<close>

theorem Close_idempotent_after_success:
  "(Close k s t = Return (None, s1, t1) \<longrightarrow> Close k s1 t1 = Return (None, s1, t1)) \<and>
   (0 < n \<longrightarrow>
      (\<exists>s' t'. Close_times k n s t = Return (s', t') \<and> done_ch s' = Closed \<and>
         count_list t' close_done =
           count_list t close_done + (if done_ch s = Open then 1 else 0)))"
  using Close_noop_after_success Close_times_once by blast

text \<open>
  With collaborators that never fail the first \<^verbatim>\<open>Close\<close> returns no error and the
  second changes nothing; with a connection whose close fails every time, three calls
  still close \<open>done\<close> once.
\<close>

theorem Close_idempotent_after_success_witness:
  "Close (failing []) connected dialled =
     Return (None, connected\<lparr>session := None, client := None, done_ch := Closed\<rparr>,
             dialled @ [Session_Wait, Client_Close, close_done]) \<and>
   Close (failing []) (connected\<lparr>session := None, client := None, done_ch := Closed\<rparr>)
       (dialled @ [Session_Wait, Client_Close, close_done]) =
     Return (None, connected\<lparr>session := None, client := None, done_ch := Closed\<rparr>,
             dialled @ [Session_Wait, Client_Close, close_done]) \<and>
   (\<exists>s' t'. Close_times (failing [(Client_Close, ''close failed'')]) 3 connected dialled =
               Return (s', t') \<and>
            done_ch s' = Closed \<and> count_list t' close_done = 1)"
proof -
  have c: "Close (failing []) connected dialled =
     Return (None, connected\<lparr>session := None, client := None, done_ch := Closed\<rparr>,
             dialled @ [Session_Wait, Client_Close, close_done])"
    by (simp add: model_defs ex_defs)
  have o: "done_ch connected = Open" "count_list dialled close_done = 0"
    by (simp_all add: ex_defs)
  show ?thesis
    using c o
      Close_idempotent_after_success [of "failing []" connected dialled
        "connected\<lparr>session := None, client := None, done_ch := Closed\<rparr>"
        "dialled @ [Session_Wait, Client_Close, close_done]" 3]
      Close_idempotent_after_success [of "failing [(Client_Close, ''close failed'')]"
        connected dialled connected dialled 3]
    by simp
qed

text \<open>
  A connection whose close fails. \<^verbatim>\<open>Dial()\<close> succeeds; the first \<^verbatim>\<open>Close\<close> waits for
  the session, fails to close the connection and keeps its handle; the second
  \<^verbatim>\<open>Close\<close> is no no-op: it calls the connection's close again and returns its error.
\<close>

theorem Close_second_call_counterexample:
  "Dial (failing [(Client_Close, ''close failed'')]) (NewSSHClient ''h:22'' cfg0) [] =
     Return (None, connected, dialled) \<and>
   Close (failing [(Client_Close, ''close failed'')]) connected dialled =
     Return (Some (GoError ''close failed''), connected\<lparr>session := None, done_ch := Closed\<rparr>,
             dialled @ [Session_Wait, Client_Close, close_done]) \<and>
   Close (failing [(Client_Close, ''close failed'')])
       (connected\<lparr>session := None, done_ch := Closed\<rparr>)
       (dialled @ [Session_Wait, Client_Close, close_done]) =
     Return (Some (GoError ''close failed''), connected\<lparr>session := None, done_ch := Closed\<rparr>,
             dialled @ [Session_Wait, Client_Close, close_done, Client_Close])"
  by (simp add: model_defs ex_defs)

subsection \<open>Which error Close returns\<close>

text \<open>
  Claim C6, as the code has it, for a client with a session and a connection.
  \<^verbatim>\<open>Close\<close> returns the first error it meets and reports no other: when the session's
  \<^verbatim>\<open>Wait\<close> fails, \<^verbatim>\<open>Close\<close> returns that error; the error of closing the connection is
  returned only when \<^verbatim>\<open>Wait\<close> succeeded, and then the session handle is cleared and the
  connection handle kept.
\<close>

theorem Close_first_error:
  assumes "session s \<noteq> None" and "client s \<noteq> None"
  shows
    "(fails k t Session_Wait = Some e \<longrightarrow>
        (\<exists>s' t'. Close k s t = Return (Some e, s', t'))) \<and>
     (fails k t Session_Wait = None \<and> fails k (t @ [Session_Wait]) Client_Close = Some ce \<longrightarrow>
        (\<exists>s' t'. Close k s t = Return (Some ce, s', t') \<and> session s' = None \<and>
           client s' = client s))"
  using assms by (auto simp: Close_eq Close_body_def Close_client_def perform_def)

theorem Close_first_error_witness:
  "(\<exists>s' t'. Close (failing [(Session_Wait, ''wait failed''), (Client_Close, ''close failed'')])
               connected dialled =
             Return (Some (GoError ''wait failed''), s', t')) \<and>
   (\<exists>s' t'. Close (failing [(Client_Close, ''close failed'')]) connected dialled =
             Return (Some (GoError ''close failed''), s', t') \<and>
           session s' = None \<and> client s' = Some Client)"
  using
    Close_first_error [of connected
      "failing [(Session_Wait, ''wait failed''), (Client_Close, ''close failed'')]" dialled
      "GoError ''wait failed''" "GoError []"]
    Close_first_error [of connected "failing [(Client_Close, ''close failed'')]" dialled
      "GoError []" "GoError ''close failed''"]
  by (simp add: ex_defs)

text \<open>
  The session's \<^verbatim>\<open>Wait\<close> fails, and closing the connection would fail too. \<^verbatim>\<open>Close\<close>
  returns the \<^verbatim>\<open>Wait\<close> error alone and never calls the connection's close: the
  connection is not released, and both handles stay in the client.
\<close>

theorem Close_wait_error_counterexample:
  "Close (failing [(Session_Wait, ''ssh: session not started''), (Client_Close, ''close failed'')])
     connected dialled =
   Return (Some (GoError ''ssh: session not started''), connected\<lparr>done_ch := Closed\<rparr>,
           dialled @ [Session_Wait, close_done])"
  by (simp add: model_defs ex_defs)

subsection \<open>Executing\<close>

text \<open>
  Claim C7, at a connected client whose server refuses the shell request. The
  session was never started, so its \<^verbatim>\<open>Wait\<close> fails (the ssh package answers
  \<^verbatim>\<open>ssh: session not started\<close>). \<^verbatim>\<open>ExecScript\<close> returns the shell error; its deferred
  \<^verbatim>\<open>Close\<close> stops at the \<^verbatim>\<open>Wait\<close> error, closes no connection and clears no handle.
  The client is not closed, and a second \<^verbatim>\<open>ExecScript\<close> passes \<^verbatim>\<open>mustBeConnected\<close> and
  goes to the session again.
\<close>

theorem ExecScript_not_closed_after_error:
  "Dial (failing [(Session_Shell, ''shell refused''), (Session_Wait, ''ssh: session not started'')])
     (NewSSHClient ''h:22'' cfg0) [] = Return (None, connected, dialled) \<and>
   ExecScript (failing [(Session_Shell, ''shell refused''), (Session_Wait, ''ssh: session not started'')])
     ''ls'' connected dialled =
     Return (Some (GoError ''shell refused''), connected\<lparr>done_ch := Closed\<rparr>,
             dialled @ [Session_StdinPipe, Session_Shell, Session_Wait, close_done]) \<and>
   ExecScript (failing [(Session_Shell, ''shell refused''), (Session_Wait, ''ssh: session not started'')])
     ''ls'' (connected\<lparr>done_ch := Closed\<rparr>)
     (dialled @ [Session_StdinPipe, Session_Shell, Session_Wait, close_done]) =
     Return (Some (GoError ''shell refused''), connected\<lparr>done_ch := Closed\<rparr>,
             dialled @ [Session_StdinPipe, Session_Shell, Session_Wait, close_done,
                        Session_StdinPipe, Session_Shell, Session_Wait])"
  by (simp add: model_defs ex_defs)

text \<open>
  Claim C8. A client that lacks the connection handle or the session handle gets the
  error \<^verbatim>\<open>sshclient not connected, did you call Dial()?\<close> from \<^verbatim>\<open>ExecScript\<close> and from
  \<^verbatim>\<open>Shell\<close>; the client is unchanged and nothing was called, not even the deferred
  \<^verbatim>\<open>Close\<close>.
\<close>

theorem not_connected_no_io:
  assumes "client s = None \<or> session s = None"
  shows "ExecScript k script s t =
           Return (Some (GoError ''sshclient not connected, did you call Dial()?''), s, t) \<and>
         Shell k s t =
           Return (Some (GoError ''sshclient not connected, did you call Dial()?''), s, t)"
  using assms by (auto simp: ExecScript_def Shell_def mustBeConnected_def)

theorem not_connected_no_io_witness:
  "ExecScript (failing []) ''ls'' (NewSSHClient ''h:22'' cfg0) [] =
     Return (Some (GoError ''sshclient not connected, did you call Dial()?''),
             NewSSHClient ''h:22'' cfg0, []) \<and>
   Shell (failing []) (NewSSHClient ''h:22'' cfg0) [] =
     Return (Some (GoError ''sshclient not connected, did you call Dial()?''),
             NewSSHClient ''h:22'' cfg0, [])"
  using not_connected_no_io [of "NewSSHClient ''h:22'' cfg0" "failing []" "''ls''" "[]"]
  by (simp add: NewSSHClient_def)

text \<open>
  Claim C9, as the code has it. On a connected client, when getting the stdin pipe,
  the shell request and the write all succeed, \<^verbatim>\<open>ExecScript\<close> does exactly this, in this
  order: it gets the stdin pipe, requests the shell, writes the script and one newline
  in a single write, closes the pipe, and waits for the session; it returns what that
  wait returned. The deferred \<^verbatim>\<open>Close\<close> then calls the connection's close (the session
  handle is cleared already) and closes \<open>done\<close>; the connection handle is cleared when
  that close succeeds and kept when it fails.
\<close>

theorem ExecScript_sequence:
  assumes "client s \<noteq> None" and "session s \<noteq> None"
    and "fails k t Session_StdinPipe = None"
    and "fails k (t @ [Session_StdinPipe]) Session_Shell = None"
    and "fails k (t @ [Session_StdinPipe, Session_Shell]) (Stdin_Write (script @ [newline])) = None"
  shows
    "ExecScript k script s t =
       Return (fails k (t @ [Session_StdinPipe, Session_Shell, Stdin_Write (script @ [newline]),
                             Stdin_Close]) Session_Wait,
               (if fails k (t @ [Session_StdinPipe, Session_Shell, Stdin_Write (script @ [newline]),
                                 Stdin_Close, Session_Wait]) Client_Close = None
                then s\<lparr>client := None, session := None, done_ch := Closed\<rparr>
                else s\<lparr>session := None, done_ch := Closed\<rparr>),
               t @ [Session_StdinPipe, Session_Shell, Stdin_Write (script @ [newline]), Stdin_Close,
                    Session_Wait, Client_Close] @ (if done_ch s = Open then [close_done] else []))"
  using assms
  by (auto simp: ExecScript_def ExecScript_body_def stdinPipe_def mustBeConnected_def perform_def
        defer_Close_def Close_eq Close_body_def Close_client_def split: option.splits)

text \<open>
  A script that exits with status 1: \<^verbatim>\<open>ExecScript\<close> returns the error of the wait and
  the client ends without handles. A connection whose close fails: \<^verbatim>\<open>ExecScript\<close>
  returns no error and the client keeps the connection handle.
\<close>

theorem ExecScript_sequence_witness:
  "ExecScript (failing [(Session_Wait, ''Process exited with status 1'')]) ''exit 1''
       connected dialled =
     Return (Some (GoError ''Process exited with status 1''),
             connected\<lparr>client := None, session := None, done_ch := Closed\<rparr>,
             dialled @ [Session_StdinPipe, Session_Shell, Stdin_Write (''exit 1'' @ [newline]),
                        Stdin_Close, Session_Wait, Client_Close, close_done]) \<and>
   ExecScript (failing [(Client_Close, ''close failed'')]) ''ls'' connected dialled =
     Return (None,
             connected\<lparr>session := None, done_ch := Closed\<rparr>,
             dialled @ [Session_StdinPipe, Session_Shell, Stdin_Write (''ls'' @ [newline]),
                        Stdin_Close, Session_Wait, Client_Close, close_done])"
  using ExecScript_sequence [of connected
      "failing [(Session_Wait, ''Process exited with status 1'')]" dialled "''exit 1''"]
    ExecScript_sequence [of connected "failing [(Client_Close, ''close failed'')]" dialled "''ls''"]
  by (simp add: ex_defs)

text \<open>
  The server refuses the shell request, and the wait of the deferred \<^verbatim>\<open>Close\<close> fails
  on the session that never started. \<^verbatim>\<open>ExecScript\<close> writes nothing, does not close the
  pipe, and returns the error of the shell request, not the result of a wait.
\<close>

theorem ExecScript_sequence_counterexample:
  "ExecScript (failing [(Session_Shell, ''shell refused''),
                        (Session_Wait, ''ssh: session not started'')]) ''ls'' connected dialled =
     Return (Some (GoError ''shell refused''), connected\<lparr>done_ch := Closed\<rparr>,
             dialled @ [Session_StdinPipe, Session_Shell, Session_Wait, close_done])"
  by (simp add: model_defs ex_defs)

end
